theory Spec2Isabelle
  imports Main "HOL-Library.Word"
begin

section \<open>Time values of the Go runtime\<close>

text \<open>
  The throttler of \<^verbatim>\<open>throttle.go\<close> works on \<^verbatim>\<open>time.Time\<close> instants and
  \<^verbatim>\<open>time.Duration\<close> spans. An instant is modelled as the number of nanoseconds since Go's
  zero instant (January 1, year 1, 00:00:00 UTC), an unbounded \<open>int\<close>; the monotonic reading a
  \<^verbatim>\<open>time.Time\<close> may carry is not modelled separately. A \<^verbatim>\<open>Duration\<close> is Go's
  \<^verbatim>\<open>int64\<close> count of nanoseconds: a 64-bit word whose arithmetic wraps and whose order is the
  signed one (\<open><s\<close>, \<open>\<le>s\<close>). The counter and the limit are \<^verbatim>\<open>uint64\<close>: 64-bit words
  with the unsigned order.
\<close>

type_synonym time = int
type_synonym duration = "64 word"
type_synonym uint64 = "64 word"

text \<open>\<^verbatim>\<open>time.Second\<close> in nanoseconds, and \<^verbatim>\<open>const windowSize = time.Second\<close>.\<close>

definition Second :: duration where
  "Second = 1000000000"

definition windowSize :: duration where
  "windowSize = Second"

text \<open>\<^verbatim>\<open>Time.IsZero\<close>: the instant is the zero instant.\<close>

definition time_IsZero :: "time \<Rightarrow> bool" where
  "time_IsZero t = (t = 0)"

text \<open>
  \<^verbatim>\<open>Time.Sub\<close>: the difference \<open>t - u\<close>, clamped to the least or greatest
  \<^verbatim>\<open>Duration\<close> when it does not fit into 64 bits.
\<close>

definition minDuration :: int where
  "minDuration = - (2 ^ 63)"

definition maxDuration :: int where
  "maxDuration = 2 ^ 63 - 1"

definition time_Sub :: "time \<Rightarrow> time \<Rightarrow> duration" where
  "time_Sub t u =
     (let d = t - u
      in if d < minDuration then word_of_int minDuration
         else if maxDuration < d then word_of_int maxDuration
         else word_of_int d)"

text \<open>
  \<^verbatim>\<open>Time.Add\<close>: the instant a (signed) duration later. Instants are unbounded here, so
  the end of Go's representable range, where \<^verbatim>\<open>Add\<close> saturates, is not modelled; only
  the test double uses \<^verbatim>\<open>Add\<close>.
\<close>

definition time_Add :: "time \<Rightarrow> duration \<Rightarrow> time" where
  "time_Add t d = t + sint d"

section \<open>The clock\<close>

text \<open>
  \<^verbatim>\<open>type Clock interface { Now() time.Time; Sleep(dur time.Duration) }\<close>.
  An implementation is an object with state of its own; \<open>'c\<close> is that state (for the default
  clock: the state of the world), and each method takes the state and returns the new one.
\<close>

record 'c Clock =
  Now :: "'c \<Rightarrow> time \<times> 'c"
  Sleep :: "duration \<Rightarrow> 'c \<Rightarrow> 'c"

text \<open>
  Every call the throttler makes on its clock is recorded, in order: the instant a
  \<^verbatim>\<open>Now()\<close> returned, the duration a \<^verbatim>\<open>Sleep\<close> was asked for.
\<close>

datatype event = CallNow time | CallSleep duration

text \<open>
  The test double of the repository's tests:
  \<^verbatim>\<open>type mockClock struct { currentTime time.Time; sleepCalls []time.Duration }\<close>.
  \<^verbatim>\<open>Now\<close> returns \<^verbatim>\<open>currentTime\<close>; \<^verbatim>\<open>Sleep\<close> appends the duration to
  \<^verbatim>\<open>sleepCalls\<close> and moves \<^verbatim>\<open>currentTime\<close> forward by it.
\<close>

record mockClock =
  currentTime :: time
  sleepCalls :: "duration list"

definition mock_Now :: "mockClock \<Rightarrow> time \<times> mockClock" where
  "mock_Now m = (currentTime m, m)"

definition mock_Sleep :: "duration \<Rightarrow> mockClock \<Rightarrow> mockClock" where
  "mock_Sleep dur m =
     m\<lparr>sleepCalls := sleepCalls m @ [dur], currentTime := time_Add (currentTime m) dur\<rparr>"

definition mock :: "mockClock Clock" where
  "mock = \<lparr>Now = mock_Now, Sleep = mock_Sleep\<rparr>"

text \<open>
  A fresh double set to the instant \<open>n\<close>, as \<^verbatim>\<open>&mockClock{currentTime: n}\<close>, and what a
  test does when it moves the double's \<^verbatim>\<open>currentTime\<close> forward by \<open>d\<close> between calls.
\<close>

definition mock_at :: "time \<Rightarrow> mockClock" where
  "mock_at n = \<lparr>currentTime = n, sleepCalls = []\<rparr>"

definition mock_advance :: "duration \<Rightarrow> mockClock \<Rightarrow> mockClock" where
  "mock_advance d m = m\<lparr>currentTime := time_Add (currentTime m) d\<rparr>"

section \<open>The throttler of throttle.go\<close>

text \<open>
  \<^verbatim>\<open>type Throttler struct { mu; window; clock; counter; limit }\<close>. The three variants of
  the repository share the fields \<^verbatim>\<open>window\<close>, \<^verbatim>\<open>counter\<close> and \<^verbatim>\<open>limit\<close>; the
  current one adds \<^verbatim>\<open>clock\<close>. The mutex is held from the start of \<^verbatim>\<open>Acquire\<close> to its
  end, the sleep included, so calls on one throttler run one after the other: a call is a
  function from the state before it to the state after it.
\<close>

record Throttler_base =
  window :: time
  counter :: uint64
  limit :: uint64

record 'c Throttler = Throttler_base +
  clock :: "'c Clock"

text \<open>The options of the current variant: \<^verbatim>\<open>options struct { clock Clock }\<close>, nil at first.\<close>

record 'c options =
  opt_clock :: "'c Clock option"

type_synonym 'c Option = "'c options \<Rightarrow> 'c options"

definition WithClock :: "'c Clock \<Rightarrow> 'c Option" where
  "WithClock clk opts = opts\<lparr>opt_clock := Some clk\<rparr>"

text \<open>
  \<^verbatim>\<open>buildOptions\<close> applies the setters in order and falls back on
  \<^verbatim>\<open>&DefaultClock{}\<close> when no clock is set. The default clock reads and sleeps on the
  machine's real time; it is the parameter \<open>dflt\<close>.
\<close>

definition buildOptions :: "'c Clock \<Rightarrow> 'c Option list \<Rightarrow> 'c options" where
  "buildOptions dflt setters =
     (let opts = fold (\<lambda>setter opts. setter opts) setters \<lparr>opt_clock = None\<rparr>
      in if opt_clock opts = None then opts\<lparr>opt_clock := Some dflt\<rparr> else opts)"

text \<open>
  \<^verbatim>\<open>New\<close>: the limit and the clock of the options; window and counter have Go's zero
  values. (\<^verbatim>\<open>buildOptions\<close> never leaves the clock nil, so the \<open>None\<close> case is not
  reached.)
\<close>

definition New :: "'c Clock \<Rightarrow> uint64 \<Rightarrow> 'c Option list \<Rightarrow> 'c Throttler" where
  "New dflt lim setters =
     (let opts = buildOptions dflt setters
      in \<lparr>window = 0, counter = 0, limit = lim,
          clock = (case opt_clock opts of Some clk \<Rightarrow> clk | None \<Rightarrow> dflt)\<rparr>)"

text \<open>\<^verbatim>\<open>reset\<close>: a new window from the given start, the counter at 1.\<close>

definition reset :: "'a Throttler_base_scheme \<Rightarrow> time \<Rightarrow> 'a Throttler_base_scheme" where
  "reset t w = t\<lparr>window := w, counter := 1\<rparr>"

text \<open>
  \<^verbatim>\<open>advance\<close>, branch by branch as in the source. The result is the throttler after
  the call, the clock's state after it, and the calls made on the clock.
\<close>

definition advance :: "'c Throttler \<Rightarrow> 'c \<Rightarrow> 'c Throttler \<times> 'c \<times> event list" where
  "advance t c =
     (if limit t = 0 then (t, c, [])
      else
        let clk = clock t;
            (now, c1) = Now clk c;
            t1 = (if time_IsZero (window t) then t\<lparr>window := now\<rparr> else t);
            windowDur = time_Sub now (window t1)
        in if windowSize <s windowDur then (reset t1 now, c1, [CallNow now])
           else
             let nextCount = counter t1 + 1
             in if nextCount \<le> limit t1
                then (t1\<lparr>counter := nextCount\<rparr>, c1, [CallNow now])
                else
                  let sleepDur = windowSize - windowDur;
                      c2 = Sleep clk sleepDur c1;
                      (now2, c3) = Now clk c2
                  in (reset t1 now2, c3, [CallNow now, CallSleep sleepDur, CallNow now2]))"

text \<open>\<^verbatim>\<open>Acquire\<close>: lock, \<^verbatim>\<open>advance\<close>, unlock.\<close>

definition Acquire :: "'c Throttler \<Rightarrow> 'c \<Rightarrow> 'c Throttler \<times> 'c \<times> event list" where
  "Acquire t c = advance t c"

text \<open>A caller's loop of \<open>n\<close> calls in a row, with all the clock calls they make.\<close>

fun acquires :: "nat \<Rightarrow> 'c Throttler \<Rightarrow> 'c \<Rightarrow> 'c Throttler \<times> 'c \<times> event list" where
  "acquires 0 t c = (t, c, [])"
| "acquires (Suc n) t c =
     (let (t1, c1, e1) = Acquire t c;
          (t2, c2, e2) = acquires n t1 c1
      in (t2, c2, e1 @ e2))"

section \<open>The transport adapter of transport.go\<close>

text \<open>
  \<^verbatim>\<open>throttledRoundTripper\<close> holds the wrapped transport and the throttler. A transport
  takes a request and acts on the world \<open>'c\<close> (the one the clock lives in); what it returns
  is Go's pair of response and error.
\<close>

record ('c, 'q, 'r, 'e) throttledRoundTripper =
  transport :: "'q \<Rightarrow> 'c \<Rightarrow> ('r \<times> 'e) \<times> 'c"
  throttler :: "'c Throttler"

definition RoundTrip ::
  "('c, 'q, 'r, 'e) throttledRoundTripper \<Rightarrow> 'q \<Rightarrow> 'c
    \<Rightarrow> ('r \<times> 'e) \<times> ('c, 'q, 'r, 'e) throttledRoundTripper \<times> 'c \<times> event list" where
  "RoundTrip rt request c =
     (let (t1, c1, evs) = Acquire (throttler rt) c;
          (result, c2) = transport rt request c1
      in (result, rt\<lparr>throttler := t1\<rparr>, c2, evs))"

definition NewRoundTripperWith ::
  "('q \<Rightarrow> 'c \<Rightarrow> ('r \<times> 'e) \<times> 'c) \<Rightarrow> 'c Throttler \<Rightarrow> ('c, 'q, 'r, 'e) throttledRoundTripper" where
  "NewRoundTripperWith tr th = \<lparr>transport = tr, throttler = th\<rparr>"

definition NewRoundTripper ::
  "'c Clock \<Rightarrow> ('q \<Rightarrow> 'c \<Rightarrow> ('r \<times> 'e) \<times> 'c) \<Rightarrow> uint64 \<Rightarrow> 'c Option list
    \<Rightarrow> ('c, 'q, 'r, 'e) throttledRoundTripper" where
  "NewRoundTripper dflt tr lim setters = NewRoundTripperWith tr (New dflt lim setters)"

section \<open>The generic variant with Do\<close>

text \<open>
  The earlier variant \<^verbatim>\<open>Throttler[T]\<close> has the fields \<^verbatim>\<open>window\<close>,
  \<^verbatim>\<open>counter\<close> and \<^verbatim>\<open>limit\<close> only, and calls \<^verbatim>\<open>time.Now\<close> and
  \<^verbatim>\<open>time.Sleep\<close> of the runtime directly: the parameter \<open>rt\<close> stands for these two
  functions. Its \<^verbatim>\<open>advance\<close> has no pass-through for limit 0.
\<close>

definition New_generic :: "uint64 \<Rightarrow> Throttler_base" where
  "New_generic lim = \<lparr>window = 0, counter = 0, limit = lim\<rparr>"

definition advance_generic ::
  "'c Clock \<Rightarrow> Throttler_base \<Rightarrow> 'c \<Rightarrow> Throttler_base \<times> 'c \<times> event list" where
  "advance_generic rt t c =
     (let (now, c1) = Now rt c;
          t1 = (if time_IsZero (window t) then t\<lparr>window := now\<rparr> else t);
          sinceLastCall = time_Sub now (window t1)
      in if Second <s sinceLastCall then (reset t1 now, c1, [CallNow now])
         else
           let nextCount = counter t1 + 1
           in if nextCount \<le> limit t1
              then (t1\<lparr>counter := nextCount\<rparr>, c1, [CallNow now])
              else
                let sleepDur = Second - sinceLastCall;
                    c2 = Sleep rt sleepDur c1;
                    (now2, c3) = Now rt c2
                in (reset t1 now2, c3, [CallNow now, CallSleep sleepDur, CallNow now2]))"

text \<open>
  \<^verbatim>\<open>Do\<close>: lock, \<^verbatim>\<open>advance\<close>, \<^verbatim>\<open>res, err := fn()\<close>, unlock,
  \<^verbatim>\<open>return res, err\<close>. The operation \<open>fn\<close> acts on the world and returns Go's pair of
  result and error.
\<close>

definition Do ::
  "'c Clock \<Rightarrow> Throttler_base \<Rightarrow> ('c \<Rightarrow> ('r \<times> 'e) \<times> 'c) \<Rightarrow> 'c
    \<Rightarrow> ('r \<times> 'e) \<times> Throttler_base \<times> 'c \<times> event list" where
  "Do rt t fn c =
     (let (t1, c1, evs) = advance_generic rt t c;
          ((res, err), c2) = fn c1
      in ((res, err), t1, c2, evs))"

section \<open>The variant with a clock offset\<close>

text \<open>
  \<^verbatim>\<open>ClockOffsetProvider func(sleepDur time.Duration) time.Duration\<close>; the field
  \<^verbatim>\<open>clockOffset\<close> of the throttler and of the options is a function value, nil (\<open>None\<close>)
  unless an option sets it. That \<^verbatim>\<open>buildOptions\<close> has no default. A provider is taken
  to be a function of the duration alone. As in the variant before, \<open>rt\<close> stands for
  \<^verbatim>\<open>time.Now\<close> and \<^verbatim>\<open>time.Sleep\<close>.
\<close>

record Throttler_offset = Throttler_base +
  clockOffset :: "(duration \<Rightarrow> duration) option"

record options_offset =
  opt_clockOffset :: "(duration \<Rightarrow> duration) option"

type_synonym Option_offset = "options_offset \<Rightarrow> options_offset"

definition buildOptions_offset :: "Option_offset list \<Rightarrow> options_offset" where
  "buildOptions_offset setters =
     fold (\<lambda>setter opts. setter opts) setters \<lparr>opt_clockOffset = None\<rparr>"

text \<open>
  The dynamic offset is the caller's function value, which may be nil. The static offset of
  the options file at hand is a closure \<^verbatim>\<open>func() time.Duration\<close> that returns
  \<open>offset\<close>: it takes no argument, while this variant's \<^verbatim>\<open>ClockOffsetProvider\<close> takes
  the sleep duration. It is read here as the provider that returns \<open>offset\<close> whatever it is
  given.
\<close>

definition WithStaticClockOffset :: "duration \<Rightarrow> Option_offset" where
  "WithStaticClockOffset offset opts = opts\<lparr>opt_clockOffset := Some (\<lambda>_. offset)\<rparr>"

definition WithDynamicClockOffset :: "(duration \<Rightarrow> duration) option \<Rightarrow> Option_offset" where
  "WithDynamicClockOffset provider opts = opts\<lparr>opt_clockOffset := provider\<rparr>"

definition New_offset :: "uint64 \<Rightarrow> Option_offset list \<Rightarrow> Throttler_offset" where
  "New_offset lim setters =
     (let opts = buildOptions_offset setters
      in \<lparr>window = 0, counter = 0, limit = lim, clockOffset = opt_clockOffset opts\<rparr>)"

text \<open>
  Calling a nil function value panics; the panic is the value \<open>Inl NilFuncCall\<close>. In
  \<^verbatim>\<open>time.Sleep(sleepDur + t.clockOffset(sleepDur))\<close> the argument is evaluated first, so
  the panic comes before any sleep.
\<close>

datatype fault = NilFuncCall

definition advance_offset ::
  "'c Clock \<Rightarrow> Throttler_offset \<Rightarrow> 'c \<Rightarrow> fault + Throttler_offset \<times> 'c \<times> event list" where
  "advance_offset rt t c =
     (if limit t = 0 then Inr (t, c, [])
      else
        let (now, c1) = Now rt c;
            t1 = (if time_IsZero (window t) then t\<lparr>window := now\<rparr> else t);
            windowDur = time_Sub now (window t1)
        in if windowSize <s windowDur then Inr (reset t1 now, c1, [CallNow now])
           else
             let nextCount = counter t1 + 1
             in if nextCount \<le> limit t1
                then Inr (t1\<lparr>counter := nextCount\<rparr>, c1, [CallNow now])
                else
                  let sleepDur = windowSize - windowDur
                  in case clockOffset t1 of
                       None \<Rightarrow> Inl NilFuncCall
                     | Some offset \<Rightarrow>
                         let dur = sleepDur + offset sleepDur;
                             c2 = Sleep rt dur c1;
                             (now2, c3) = Now rt c2
                         in Inr (reset t1 now2, c3,
                                 [CallNow now, CallSleep dur, CallNow now2]))"

text \<open>That variant's \<^verbatim>\<open>Do\<close>: lock, \<^verbatim>\<open>advance\<close>, unlock, \<^verbatim>\<open>return fn()\<close>.\<close>

definition Do_offset ::
  "'c Clock \<Rightarrow> Throttler_offset \<Rightarrow> ('c \<Rightarrow> ('r \<times> 'e) \<times> 'c) \<Rightarrow> 'c
    \<Rightarrow> fault + ('r \<times> 'e) \<times> Throttler_offset \<times> 'c \<times> event list" where
  "Do_offset rt t fn c =
     (case advance_offset rt t c of
        Inl f \<Rightarrow> Inl f
      | Inr (t1, c1, evs) \<Rightarrow> (let (result, c2) = fn c1 in Inr (result, t1, c2, evs)))"

section \<open>Clocks that need not be deterministic\<close>

text \<open>
  A clock in general (the machine's, for one) answers \<^verbatim>\<open>Now\<close> and returns from
  \<^verbatim>\<open>Sleep\<close> as it pleases: each method is a relation between the state before the call and
  what the call may return. \<open>rel_of\<close> reads a clock given by functions as such relations, and
  a clock is deterministic when each call has at most one result.
\<close>

record 'c ClockR =
  NowR :: "'c \<Rightarrow> time \<times> 'c \<Rightarrow> bool"
  SleepR :: "duration \<Rightarrow> 'c \<Rightarrow> 'c \<Rightarrow> bool"

definition rel_of :: "'c Clock \<Rightarrow> 'c ClockR" where
  "rel_of clk = \<lparr>NowR = (\<lambda>c r. r = Now clk c), SleepR = (\<lambda>d c c'. c' = Sleep clk d c)\<rparr>"

definition deterministic :: "'c ClockR \<Rightarrow> bool" where
  "deterministic clk =
     ((\<forall>c r r'. NowR clk c r \<longrightarrow> NowR clk c r' \<longrightarrow> r = r')
      \<and> (\<forall>d c c' c''. SleepR clk d c c' \<longrightarrow> SleepR clk d c c'' \<longrightarrow> c' = c''))"

text \<open>
  \<^verbatim>\<open>advance\<close> of \<^verbatim>\<open>throttle.go\<close> over such a clock: one rule for each
  \<^verbatim>\<open>return\<close> of the source, its premises the tests passed on the way there.
\<close>

inductive advanceR ::
  "'c ClockR \<Rightarrow> 'a Throttler_base_scheme \<Rightarrow> 'c
    \<Rightarrow> 'a Throttler_base_scheme \<times> 'c \<times> event list \<Rightarrow> bool"
  for clk :: "'c ClockR" where
  pass_through:
    "limit t = 0 \<Longrightarrow> advanceR clk t c (t, c, [])"
| expired:
    "\<lbrakk>limit t \<noteq> 0; NowR clk c (now, c1);
      t1 = (if time_IsZero (window t) then t\<lparr>window := now\<rparr> else t);
      windowSize <s time_Sub now (window t1)\<rbrakk>
     \<Longrightarrow> advanceR clk t c (reset t1 now, c1, [CallNow now])"
| admitted:
    "\<lbrakk>limit t \<noteq> 0; NowR clk c (now, c1);
      t1 = (if time_IsZero (window t) then t\<lparr>window := now\<rparr> else t);
      \<not> windowSize <s time_Sub now (window t1);
      counter t1 + 1 \<le> limit t1\<rbrakk>
     \<Longrightarrow> advanceR clk t c (t1\<lparr>counter := counter t1 + 1\<rparr>, c1, [CallNow now])"
| waited:
    "\<lbrakk>limit t \<noteq> 0; NowR clk c (now, c1);
      t1 = (if time_IsZero (window t) then t\<lparr>window := now\<rparr> else t);
      \<not> windowSize <s time_Sub now (window t1);
      \<not> counter t1 + 1 \<le> limit t1;
      sleepDur = windowSize - time_Sub now (window t1);
      SleepR clk sleepDur c1 c2; NowR clk c2 (now2, c3)\<rbrakk>
     \<Longrightarrow> advanceR clk t c (reset t1 now2, c3, [CallNow now, CallSleep sleepDur, CallNow now2])"

text \<open>
  A run: calls to \<^verbatim>\<open>Acquire\<close> and, between them, the test moving its clock by the
  operation \<open>adv\<close>. What is observed of a call is whether it was admitted at once or waited,
  and for how long: the first \<^verbatim>\<open>Sleep\<close> among its clock calls.
\<close>

datatype op = OpAcquire | OpAdvance duration

datatype outcome = Immediately | Waited duration

fun sleeps :: "event list \<Rightarrow> duration list" where
  "sleeps [] = []"
| "sleeps (CallNow n # es) = sleeps es"
| "sleeps (CallSleep d # es) = d # sleeps es"

definition outcome_of :: "event list \<Rightarrow> outcome" where
  "outcome_of evs = (case sleeps evs of [] \<Rightarrow> Immediately | d # ds \<Rightarrow> Waited d)"

inductive runR ::
  "'c ClockR \<Rightarrow> (duration \<Rightarrow> 'c \<Rightarrow> 'c) \<Rightarrow> op list \<Rightarrow> 'a Throttler_base_scheme \<Rightarrow> 'c
    \<Rightarrow> outcome list \<times> 'a Throttler_base_scheme \<times> 'c \<Rightarrow> bool"
  for clk :: "'c ClockR" and adv :: "duration \<Rightarrow> 'c \<Rightarrow> 'c" where
  run_done:
    "runR clk adv [] t c ([], t, c)"
| run_acquire:
    "\<lbrakk>advanceR clk t c (t1, c1, evs); runR clk adv ops t1 c1 (outs, t2, c2)\<rbrakk>
     \<Longrightarrow> runR clk adv (OpAcquire # ops) t c (outcome_of evs # outs, t2, c2)"
| run_advance:
    "runR clk adv ops t (adv d c) r \<Longrightarrow> runR clk adv (OpAdvance d # ops) t c r"

text \<open>The same run computed, for a throttler whose clock is given by functions.\<close>

fun run ::
  "(duration \<Rightarrow> 'c \<Rightarrow> 'c) \<Rightarrow> op list \<Rightarrow> 'c Throttler \<Rightarrow> 'c
    \<Rightarrow> outcome list \<times> 'c Throttler \<times> 'c" where
  "run adv [] t c = ([], t, c)"
| "run adv (OpAcquire # ops) t c =
     (let (t1, c1, evs) = Acquire t c;
          (outs, t2, c2) = run adv ops t1 c1
      in (outcome_of evs # outs, t2, c2))"
| "run adv (OpAdvance d # ops) t c = run adv ops t (adv d c)"

section \<open>The window predicate and the throttlers used as examples\<close>

text \<open>
  The predicate of the data model, read at the instant \<open>now\<close>: the window is unset, or the
  counter is within the limit and the window is no older than \<open>windowSize\<close>.
\<close>

definition window_inv :: "'a Throttler_base_scheme \<Rightarrow> time \<Rightarrow> bool" where
  "window_inv t now =
     (time_IsZero (window t)
      \<or> (counter t \<le> limit t \<and> time_Sub now (window t) \<le>s windowSize))"

text \<open>
  A throttler of limit \<open>lim\<close> on the test double after its first \<^verbatim>\<open>Acquire\<close>, made at
  instant 5: its window starts at 5 and its counter is 1. The same for the variant with a clock
  offset, given its options.
\<close>

definition busy :: "uint64 \<Rightarrow> mockClock Throttler" where
  "busy lim = fst (Acquire (New mock lim [WithClock mock]) (mock_at 5))"

definition busy_offset :: "uint64 \<Rightarrow> Option_offset list \<Rightarrow> Throttler_offset" where
  "busy_offset lim setters =
     (case advance_offset mock (New_offset lim setters) (mock_at 5) of
        Inr (t, c, evs) \<Rightarrow> t
      | Inl f \<Rightarrow> New_offset lim setters)"

text \<open>
  An operation for \<^verbatim>\<open>Do\<close> and a transport for \<^verbatim>\<open>RoundTrip\<close> that report the
  world they are run on: the result is the instant the double shows (for the transport, with
  the request), the error slot holds the sleeps recorded so far, and the call itself takes
  7 ns of the double's time.
\<close>

definition observe :: "mockClock \<Rightarrow> (time \<times> duration list) \<times> mockClock" where
  "observe m = ((currentTime m, sleepCalls m), mock_advance 7 m)"

definition observe_transport ::
  "string \<Rightarrow> mockClock \<Rightarrow> (string \<times> time \<times> duration list) \<times> mockClock" where
  "observe_transport request m = ((request, currentTime m, sleepCalls m), mock_advance 7 m)"

section \<open>Basic facts\<close>

lemma limit_New: "limit (New dflt lim setters) = lim"
  by (simp add: New_def Let_def)

lemma window_New: "window (New dflt lim setters) = 0"
  by (simp add: New_def Let_def)

lemma Acquire_unlimited: "limit t = 0 \<Longrightarrow> Acquire t c = (t, c, [])"
  by (simp add: Acquire_def advance_def)

lemma acquires_unlimited: "limit t = 0 \<Longrightarrow> acquires n t c = (t, c, [])"
  by (induction n) (simp_all add: Acquire_unlimited)

lemma one_le_uint64: "(1 \<le> (x::uint64)) = (x \<noteq> 0)"
  by (simp add: word_le_nat_alt unat_eq_0 Suc_le_eq unat_gt_0)

lemma time_Sub_self: "time_Sub n n = 0"
  by (simp add: time_Sub_def minDuration_def maxDuration_def)

lemma zero_sle_windowSize: "0 \<le>s windowSize"
  by (simp add: windowSize_def Second_def word_sle_eq)

text \<open>\<^verbatim>\<open>advance\<close> leaves the limit and the clock of a throttler as they are.\<close>

lemma limit_advance: "limit (fst (advance t c)) = limit t"
  by (simp add: advance_def reset_def Let_def split: prod.splits)

lemma clock_advance: "clock (fst (advance t c)) = clock t"
  by (simp add: advance_def reset_def Let_def split: prod.splits)

text \<open>The equations that evaluate a call on the test double.\<close>

lemmas example_simps =
  New_def buildOptions_def WithClock_def mock_def mock_Now_def mock_Sleep_def mock_at_def
  mock_advance_def time_Sub_def time_Add_def time_IsZero_def windowSize_def Second_def
  minDuration_def maxDuration_def Let_def Acquire_def advance_def reset_def
  word_sle_eq word_sless_alt word_le_nat_alt word_less_nat_alt

section \<open>No limit\<close>

text \<open>
  C3. A throttler constructed with limit 0: whatever the options, the clock's state and
  the number \<open>n\<close> of calls to \<^verbatim>\<open>Acquire\<close>, no call asks the clock to sleep.
\<close>

theorem unlimited_never_sleeps:
  "CallSleep d \<notin> set (snd (snd (acquires n (New dflt 0 setters) c)))"
  by (simp add: acquires_unlimited limit_New)

text \<open>
  C10. A throttler constructed with limit 0: after any number of calls to
  \<^verbatim>\<open>Acquire\<close> the throttler (window and counter included) is the one \<^verbatim>\<open>New\<close>
  returned, the clock's state is untouched and no call was made on the clock, neither
  \<^verbatim>\<open>Now\<close> nor \<^verbatim>\<open>Sleep\<close>.
\<close>

theorem unlimited_frozen:
  "acquires n (New dflt 0 setters) c = (New dflt 0 setters, c, [])"
  by (simp add: acquires_unlimited limit_New)

section \<open>The branches of advance\<close>

text \<open>
  In what follows a window is open when it is not the zero instant, \<open>now\<close> is what the
  clock answers to the call's first \<^verbatim>\<open>Now()\<close>, the elapsed time is
  \<open>time_Sub now (window t)\<close>, and \<open>counter t + 1\<close> is the sum as the code computes it, in
  \<^verbatim>\<open>uint64\<close>.
\<close>

text \<open>
  C4. Limit above 0, the window open and not expired (the elapsed time at most
  \<open>windowSize\<close>), and \<open>counter + 1 \<le> limit\<close>: \<^verbatim>\<open>Acquire\<close> returns the throttler with the
  counter one higher and nothing else changed (the window start in particular); the only
  call on the clock is the one \<^verbatim>\<open>Now()\<close>, so the clock was not asked to sleep.
\<close>

theorem admitted_within_window:
  assumes "0 < limit t" and "\<not> time_IsZero (window t)"
    and "Now (clock t) c = (now, c1)"
    and "time_Sub now (window t) \<le>s windowSize"
    and "counter t + 1 \<le> limit t"
  shows "Acquire t c = (t\<lparr>counter := counter t + 1\<rparr>, c1, [CallNow now])"
  using assms
  by (simp add: Acquire_def advance_def word_gt_0 signed.not_less [symmetric])

text \<open>
  The second call on a throttler of limit 2, exactly one window size after the first.
\<close>

theorem admitted_within_window_witness:
  "0 < limit (busy 2) \<and> \<not> time_IsZero (window (busy 2))
   \<and> Now (clock (busy 2)) (mock_at 1000000005) = (1000000005, mock_at 1000000005)
   \<and> time_Sub 1000000005 (window (busy 2)) \<le>s windowSize
   \<and> counter (busy 2) + 1 \<le> limit (busy 2)
   \<and> window (busy 2) = 5 \<and> counter (busy 2) = 1
   \<and> Acquire (busy 2) (mock_at 1000000005)
       = ((busy 2)\<lparr>counter := 2\<rparr>, mock_at 1000000005, [CallNow 1000000005])"
  using admitted_within_window
    [of "busy 2" "mock_at 1000000005" 1000000005 "mock_at 1000000005"]
  by (simp add: busy_def example_simps)

text \<open>
  C5. Limit above 0, the window open, not expired and saturated (\<open>limit < counter + 1\<close>):
  \<^verbatim>\<open>Acquire\<close> asks the clock to sleep for exactly \<open>windowSize\<close> less the elapsed time,
  reads the clock again after the sleep, and returns with the window starting at that second
  reading and the counter at 1. In the variant with a clock offset, whose option gave it the
  provider \<open>offset\<close>, the sleep is that duration plus \<open>offset\<close> of that duration, and the rest
  is the same.
\<close>

theorem saturated_waits:
  "(0 < limit t \<and> \<not> time_IsZero (window t) \<and> Now (clock t) c = (now, c1)
     \<and> time_Sub now (window t) \<le>s windowSize \<and> limit t < counter t + 1
     \<and> Now (clock t) (Sleep (clock t) (windowSize - time_Sub now (window t)) c1) = (now2, c3)
    \<longrightarrow> Acquire t c =
          (t\<lparr>window := now2, counter := 1\<rparr>, c3,
           [CallNow now, CallSleep (windowSize - time_Sub now (window t)), CallNow now2]))
   \<and> (0 < limit u \<and> \<not> time_IsZero (window u) \<and> Now rt c' = (now', c1')
     \<and> time_Sub now' (window u) \<le>s windowSize \<and> limit u < counter u + 1
     \<and> clockOffset u = Some offset
     \<and> windowSize - time_Sub now' (window u) + offset (windowSize - time_Sub now' (window u)) = dur
     \<and> Now rt (Sleep rt dur c1') = (now2', c3')
    \<longrightarrow> advance_offset rt u c' =
          Inr (u\<lparr>window := now2', counter := 1\<rparr>, c3',
               [CallNow now', CallSleep dur, CallNow now2']))"
  by (auto simp add: Acquire_def advance_def advance_offset_def reset_def Let_def word_gt_0
      signed.not_less [symmetric] not_le [symmetric])

text \<open>
  The second call on a throttler of limit 1, 0.3 s after the first: a sleep of 0.7 s, and the
  new window starts at the instant read after it, not at the instant the wait began. With a
  static offset of 0.25 s the sleep is 0.95 s.
\<close>

theorem saturated_waits_witness:
  "0 < limit (busy 1) \<and> \<not> time_IsZero (window (busy 1))
   \<and> Now (clock (busy 1)) (mock_at 300000005) = (300000005, mock_at 300000005)
   \<and> time_Sub 300000005 (window (busy 1)) \<le>s windowSize
   \<and> limit (busy 1) < counter (busy 1) + 1
   \<and> windowSize - time_Sub 300000005 (window (busy 1)) = 700000000
   \<and> Now (clock (busy 1)) (Sleep (clock (busy 1)) 700000000 (mock_at 300000005))
       = (1000000005, \<lparr>currentTime = 1000000005, sleepCalls = [700000000]\<rparr>)
   \<and> Acquire (busy 1) (mock_at 300000005)
       = ((busy 1)\<lparr>window := 1000000005, counter := 1\<rparr>,
          \<lparr>currentTime = 1000000005, sleepCalls = [700000000]\<rparr>,
          [CallNow 300000005, CallSleep 700000000, CallNow 1000000005])
   \<and> 0 < limit (busy_offset 1 [WithStaticClockOffset 250000000])
   \<and> \<not> time_IsZero (window (busy_offset 1 [WithStaticClockOffset 250000000]))
   \<and> time_Sub 300000005 (window (busy_offset 1 [WithStaticClockOffset 250000000])) \<le>s windowSize
   \<and> limit (busy_offset 1 [WithStaticClockOffset 250000000])
       < counter (busy_offset 1 [WithStaticClockOffset 250000000]) + 1
   \<and> clockOffset (busy_offset 1 [WithStaticClockOffset 250000000]) = Some (\<lambda>_. 250000000)
   \<and> Now mock (Sleep mock 950000000 (mock_at 300000005))
       = (1250000005, \<lparr>currentTime = 1250000005, sleepCalls = [950000000]\<rparr>)
   \<and> advance_offset mock (busy_offset 1 [WithStaticClockOffset 250000000]) (mock_at 300000005)
       = Inr ((busy_offset 1 [WithStaticClockOffset 250000000])\<lparr>window := 1250000005, counter := 1\<rparr>,
              \<lparr>currentTime = 1250000005, sleepCalls = [950000000]\<rparr>,
              [CallNow 300000005, CallSleep 950000000, CallNow 1250000005])"
  using saturated_waits
    [of "busy 1" "mock_at 300000005" 300000005 "mock_at 300000005"
        1000000005 "\<lparr>currentTime = 1000000005, sleepCalls = [700000000]\<rparr>"
        "busy_offset 1 [WithStaticClockOffset 250000000]" mock "mock_at 300000005"
        300000005 "mock_at 300000005" "\<lambda>_. 250000000" 950000000
        1250000005 "\<lparr>currentTime = 1250000005, sleepCalls = [950000000]\<rparr>"]
  by (simp add: busy_def busy_offset_def advance_offset_def New_offset_def
      buildOptions_offset_def WithStaticClockOffset_def example_simps)

text \<open>
  C2, amended. Limit above 0 and the window open. A call whose elapsed time is exactly
  \<open>windowSize\<close> is not treated as expired: under the limit it is admitted in the current
  window, the window start kept and the counter one higher; on a saturated window it takes
  the waiting path, with a sleep of \<open>windowSize - windowSize = 0\<close>, after which a fresh window
  starts as after any wait. A call whose elapsed time is strictly greater than \<open>windowSize\<close>
  starts a fresh window at \<open>now\<close> with the counter at 1, without sleeping; and without a
  sleep only such a call does: when a call changes the window start and has not slept, its
  elapsed time was strictly greater than \<open>windowSize\<close>.
\<close>

theorem boundary_counts_in_current_window:
  assumes "0 < limit t" and "\<not> time_IsZero (window t)"
    and "Now (clock t) c = (now, c1)"
  shows "(time_Sub now (window t) = windowSize \<and> counter t + 1 \<le> limit t
            \<longrightarrow> Acquire t c = (t\<lparr>counter := counter t + 1\<rparr>, c1, [CallNow now]))
       \<and> (time_Sub now (window t) = windowSize \<and> limit t < counter t + 1
            \<longrightarrow> (\<exists>now2 c3. Now (clock t) (Sleep (clock t) 0 c1) = (now2, c3)
                  \<and> Acquire t c = (reset t now2, c3, [CallNow now, CallSleep 0, CallNow now2])))
       \<and> (windowSize <s time_Sub now (window t)
            \<longrightarrow> Acquire t c = (t\<lparr>window := now, counter := 1\<rparr>, c1, [CallNow now]))
       \<and> (window (fst (Acquire t c)) \<noteq> window t \<and> sleeps (snd (snd (Acquire t c))) = []
            \<longrightarrow> windowSize <s time_Sub now (window t))"
  using assms
  by (auto simp add: Acquire_def advance_def reset_def Let_def word_gt_0
      signed.not_less [symmetric] not_le [symmetric] split: prod.splits if_splits)

text \<open>
  Exactly one window size after the first call: a throttler of limit 2 admits the second
  call in the window that started at 5; a throttler of limit 1 sleeps for 0. One nanosecond
  later the throttler of limit 2 starts a fresh window.
\<close>

theorem boundary_counts_in_current_window_witness:
  "0 < limit (busy 2) \<and> \<not> time_IsZero (window (busy 2))
   \<and> Now (clock (busy 2)) (mock_at 1000000005) = (1000000005, mock_at 1000000005)
   \<and> time_Sub 1000000005 (window (busy 2)) = windowSize
   \<and> counter (busy 2) + 1 \<le> limit (busy 2)
   \<and> Acquire (busy 2) (mock_at 1000000005)
       = ((busy 2)\<lparr>counter := 2\<rparr>, mock_at 1000000005, [CallNow 1000000005])
   \<and> 0 < limit (busy 1) \<and> \<not> time_IsZero (window (busy 1))
   \<and> Now (clock (busy 1)) (mock_at 1000000005) = (1000000005, mock_at 1000000005)
   \<and> time_Sub 1000000005 (window (busy 1)) = windowSize
   \<and> limit (busy 1) < counter (busy 1) + 1
   \<and> Acquire (busy 1) (mock_at 1000000005)
       = (reset (busy 1) 1000000005, \<lparr>currentTime = 1000000005, sleepCalls = [0]\<rparr>,
          [CallNow 1000000005, CallSleep 0, CallNow 1000000005])
   \<and> Now (clock (busy 2)) (mock_at 1000000006) = (1000000006, mock_at 1000000006)
   \<and> windowSize <s time_Sub 1000000006 (window (busy 2))
   \<and> window (fst (Acquire (busy 2) (mock_at 1000000006))) \<noteq> window (busy 2)
   \<and> sleeps (snd (snd (Acquire (busy 2) (mock_at 1000000006)))) = []
   \<and> Acquire (busy 2) (mock_at 1000000006)
       = ((busy 2)\<lparr>window := 1000000006, counter := 1\<rparr>, mock_at 1000000006,
          [CallNow 1000000006])"
  using boundary_counts_in_current_window
    [of "busy 2" "mock_at 1000000005" 1000000005 "mock_at 1000000005"]
    boundary_counts_in_current_window
    [of "busy 1" "mock_at 1000000005" 1000000005 "mock_at 1000000005"]
    boundary_counts_in_current_window
    [of "busy 2" "mock_at 1000000006" 1000000006 "mock_at 1000000006"]
  by (simp add: busy_def example_simps)

text \<open>
  Without the amendment C2 fails on a saturated window. A throttler of limit 1 is called a
  second time exactly one window size after the first call, made at instant 5: the elapsed
  time is \<open>windowSize\<close>, not more, and yet the call leaves a fresh window, started at
  1000000005, with the counter at 1.
\<close>

theorem boundary_saturated_counterexample:
  "0 < limit (busy 1) \<and> window (busy 1) = 5 \<and> counter (busy 1) = 1
   \<and> fst (Now (clock (busy 1)) (mock_at 1000000005)) = 1000000005
   \<and> time_Sub 1000000005 (window (busy 1)) = windowSize
   \<and> window (fst (Acquire (busy 1) (mock_at 1000000005))) = 1000000005
   \<and> counter (fst (Acquire (busy 1) (mock_at 1000000005))) = 1"
  by (simp add: busy_def example_simps)

section \<open>The window predicate\<close>

text \<open>
  C6, amended. Limit above 0. The throttler \<^verbatim>\<open>New\<close> returns has its window unset, so the
  predicate holds of it at every instant. When a call to \<^verbatim>\<open>Acquire\<close> returns, whatever
  the throttler was before, the predicate holds at the instant \<open>n\<close> of the last reading the
  call took from the clock: the window is unset, or the counter is at most the limit and
  \<open>n\<close> is no more than \<open>windowSize\<close> after the window start.
\<close>

theorem window_inv_on_return:
  "window_inv (New dflt lim setters) now
   \<and> (0 < limit t \<longrightarrow>
        (\<exists>n. last (snd (snd (Acquire t c))) = CallNow n \<and> window_inv (fst (Acquire t c)) n))"
proof
  show "window_inv (New dflt lim setters) now"
    by (simp add: window_inv_def window_New time_IsZero_def)
next
  show "0 < limit t \<longrightarrow>
        (\<exists>n. last (snd (snd (Acquire t c))) = CallNow n \<and> window_inv (fst (Acquire t c)) n)"
    by (auto simp add: Acquire_def advance_def reset_def Let_def window_inv_def word_gt_0
        one_le_uint64 time_Sub_self zero_sle_windowSize signed.not_less split: prod.splits)
qed

text \<open>The second call on a throttler of limit 1, 0.3 s after the first.\<close>

theorem window_inv_on_return_witness:
  "window_inv (New mock 1 [WithClock mock]) 5
   \<and> 0 < limit (busy 1)
   \<and> last (snd (snd (Acquire (busy 1) (mock_at 300000005)))) = CallNow 1000000005
   \<and> window_inv (fst (Acquire (busy 1) (mock_at 300000005))) 1000000005"
proof -
  have lim: "0 < limit (busy 1)"
    by (simp add: busy_def example_simps)
  have lst: "last (snd (snd (Acquire (busy 1) (mock_at 300000005)))) = CallNow 1000000005"
    by (simp add: busy_def example_simps)
  from window_inv_on_return [of mock 1 "[WithClock mock]" 5 "busy 1" "mock_at 300000005"] lim
  obtain n where new: "window_inv (New mock 1 [WithClock mock]) 5"
    and n: "last (snd (snd (Acquire (busy 1) (mock_at 300000005)))) = CallNow n"
    and inv: "window_inv (fst (Acquire (busy 1) (mock_at 300000005))) n"
    by blast
  from n lst have "n = 1000000005" by simp
  with new lim lst inv show ?thesis by simp
qed

text \<open>
  Between calls the predicate does not hold at every instant. A throttler of limit 1 is
  called at instant 5; the test then moves the clock forward by 2 s. At the instant the clock
  now shows, the window is set and 2 s old, more than \<open>windowSize\<close>. (The next call finds it
  expired.)
\<close>

theorem window_inv_between_calls_counterexample:
  "0 < limit (busy 1)
   \<and> fst (Now (clock (busy 1)) (mock_advance 2000000000 (mock_at 5))) = 2000000005
   \<and> \<not> window_inv (busy 1) 2000000005"
  by (simp add: busy_def window_inv_def example_simps)

section \<open>The wrappers\<close>

text \<open>
  C7. \<^verbatim>\<open>Do\<close> performs the admission (the throttler and the clock calls are those of
  \<^verbatim>\<open>advance\<close>), then runs the operation \<open>fn\<close> once, on the world the admission left, and
  returns the pair of result and error \<open>fn\<close> returned. \<^verbatim>\<open>RoundTrip\<close> does the same with
  \<^verbatim>\<open>Acquire\<close> and the wrapped transport's \<^verbatim>\<open>RoundTrip\<close>. Neither has a result of
  its own making. In particular, on an open, unexpired and saturated window the wrapper
  first sleeps out the window and reads the clock again; the operation runs on the world as
  it is after that second reading, and its pair is what the wrapper returns.
\<close>

theorem wrappers_return_unchanged:
  "(case advance_generic rt t c of
      (t1, c1, evs) \<Rightarrow> Do rt t fn c = (fst (fn c1), t1, snd (fn c1), evs))
   \<and> (case Acquire (throttler r) c of
      (t1, c1, evs) \<Rightarrow>
        RoundTrip r request c
          = (fst (transport r request c1), r\<lparr>throttler := t1\<rparr>, snd (transport r request c1), evs))
   \<and> (\<not> time_IsZero (window t) \<and> Now rt c = (now, c1)
       \<and> time_Sub now (window t) \<le>s Second \<and> limit t < counter t + 1
       \<and> Now rt (Sleep rt (Second - time_Sub now (window t)) c1) = (now2, c3)
      \<longrightarrow> Do rt t fn c =
            (fst (fn c3), t\<lparr>window := now2, counter := 1\<rparr>, snd (fn c3),
             [CallNow now, CallSleep (Second - time_Sub now (window t)), CallNow now2]))
   \<and> (0 < limit (throttler r) \<and> \<not> time_IsZero (window (throttler r))
       \<and> Now (clock (throttler r)) c = (now, c1)
       \<and> time_Sub now (window (throttler r)) \<le>s windowSize
       \<and> limit (throttler r) < counter (throttler r) + 1
       \<and> Now (clock (throttler r))
             (Sleep (clock (throttler r)) (windowSize - time_Sub now (window (throttler r))) c1)
           = (now2, c3)
      \<longrightarrow> RoundTrip r request c =
            (fst (transport r request c3),
             r\<lparr>throttler := (throttler r)\<lparr>window := now2, counter := 1\<rparr>\<rparr>,
             snd (transport r request c3),
             [CallNow now, CallSleep (windowSize - time_Sub now (window (throttler r))),
              CallNow now2]))"
  by (auto simp add: Do_def RoundTrip_def advance_generic_def Acquire_def advance_def reset_def
      Let_def word_gt_0 signed.not_less [symmetric] not_le [symmetric] split: prod.splits)

text \<open>
  A throttler of limit 1 of the generic variant, with the test double for the runtime's
  clock, and the operation \<open>observe\<close>. The first \<^verbatim>\<open>Do\<close>, at instant 5, is admitted at
  once and returns what \<open>observe\<close> found: instant 5, no sleep. The second, at instant
  300000005, sleeps for 0.7 s first; \<open>observe\<close> runs after it and finds instant 1000000005
  and the sleep recorded, and that pair is what \<^verbatim>\<open>Do\<close> returns. The same two calls
  through \<^verbatim>\<open>RoundTrip\<close>, on a transport over a throttler of limit 1.
\<close>

theorem wrappers_return_unchanged_witness:
  "Do mock (New_generic 1) observe (mock_at 5)
     = ((5, []), (New_generic 1)\<lparr>window := 5, counter := 1\<rparr>,
        \<lparr>currentTime = 12, sleepCalls = []\<rparr>, [CallNow 5])
   \<and> \<not> time_IsZero (window ((New_generic 1)\<lparr>window := 5, counter := 1\<rparr>))
   \<and> Now mock (mock_at 300000005) = (300000005, mock_at 300000005)
   \<and> time_Sub 300000005 (window ((New_generic 1)\<lparr>window := 5, counter := 1\<rparr>)) \<le>s Second
   \<and> limit ((New_generic 1)\<lparr>window := 5, counter := 1\<rparr>)
       < counter ((New_generic 1)\<lparr>window := 5, counter := 1\<rparr>) + 1
   \<and> Now mock (Sleep mock 700000000 (mock_at 300000005))
       = (1000000005, \<lparr>currentTime = 1000000005, sleepCalls = [700000000]\<rparr>)
   \<and> Do mock ((New_generic 1)\<lparr>window := 5, counter := 1\<rparr>) observe (mock_at 300000005)
       = ((1000000005, [700000000]),
          (New_generic 1)\<lparr>window := 1000000005, counter := 1\<rparr>,
          \<lparr>currentTime = 1000000012, sleepCalls = [700000000]\<rparr>,
          [CallNow 300000005, CallSleep 700000000, CallNow 1000000005])
   \<and> RoundTrip (NewRoundTripper mock observe_transport 1 [WithClock mock]) ''GET'' (mock_at 5)
       = ((''GET'', 5, []), NewRoundTripperWith observe_transport (busy 1),
          \<lparr>currentTime = 12, sleepCalls = []\<rparr>, [CallNow 5])
   \<and> 0 < limit (throttler (NewRoundTripperWith observe_transport (busy 1)))
   \<and> \<not> time_IsZero (window (throttler (NewRoundTripperWith observe_transport (busy 1))))
   \<and> Now (clock (throttler (NewRoundTripperWith observe_transport (busy 1)))) (mock_at 300000005)
       = (300000005, mock_at 300000005)
   \<and> time_Sub 300000005 (window (throttler (NewRoundTripperWith observe_transport (busy 1))))
       \<le>s windowSize
   \<and> limit (throttler (NewRoundTripperWith observe_transport (busy 1)))
       < counter (throttler (NewRoundTripperWith observe_transport (busy 1))) + 1
   \<and> RoundTrip (NewRoundTripperWith observe_transport (busy 1)) ''GET'' (mock_at 300000005)
       = ((''GET'', 1000000005, [700000000]),
          NewRoundTripperWith observe_transport ((busy 1)\<lparr>window := 1000000005, counter := 1\<rparr>),
          \<lparr>currentTime = 1000000012, sleepCalls = [700000000]\<rparr>,
          [CallNow 300000005, CallSleep 700000000, CallNow 1000000005])"
  using wrappers_return_unchanged
    [where rt = mock and t = "(New_generic 1)\<lparr>window := 5, counter := 1\<rparr>"
       and c = "mock_at 300000005" and fn = observe
       and r = "NewRoundTripperWith observe_transport (busy 1)" and request = "''GET''"
       and now = 300000005 and ?c1.0 = "mock_at 300000005" and ?now2.0 = 1000000005
       and ?c3.0 = "\<lparr>currentTime = 1000000005, sleepCalls = [700000000]\<rparr>"]
  by (simp add: Do_def RoundTrip_def advance_generic_def New_generic_def NewRoundTripper_def
      NewRoundTripperWith_def observe_def observe_transport_def busy_def example_simps)

section \<open>Determinism on a deterministic clock\<close>

lemma NowR_det:
  "deterministic clk \<Longrightarrow> NowR clk c (n, c1) \<Longrightarrow> NowR clk c (n', c1') \<Longrightarrow> n' = n \<and> c1' = c1"
  unfolding deterministic_def by blast

lemma SleepR_det:
  "deterministic clk \<Longrightarrow> SleepR clk d c c1 \<Longrightarrow> SleepR clk d c c1' \<Longrightarrow> c1' = c1"
  unfolding deterministic_def by blast

lemma advanceR_deterministic:
  assumes det: "deterministic clk" and r: "advanceR clk t c r" and r': "advanceR clk t c r'"
  shows "r' = r"
  using r
proof cases
  case pass_through
  with r' show ?thesis by (auto elim: advanceR.cases)
next
  case A: (expired now c1 t1)
  from r' show ?thesis
  proof cases
    case pass_through
    with A show ?thesis by simp
  next
    case B: (expired now' c1' t1')
    from det A(3) B(3) have n: "now' = now" "c1' = c1" by (auto dest: NowR_det)
    from A(4) B(4) n have "t1' = t1" by simp
    with A(1) B(1) n show ?thesis by simp
  next
    case B: (admitted now' c1' t1')
    from det A(3) B(3) have n: "now' = now" "c1' = c1" by (auto dest: NowR_det)
    from A(4) B(4) n have "t1' = t1" by simp
    with A(5) B(5) n show ?thesis by simp
  next
    case B: (waited now' c1' t1' sleepDur c2 now2 c3)
    from det A(3) B(3) have n: "now' = now" "c1' = c1" by (auto dest: NowR_det)
    from A(4) B(4) n have "t1' = t1" by simp
    with A(5) B(5) n show ?thesis by simp
  qed
next
  case A: (admitted now c1 t1)
  from r' show ?thesis
  proof cases
    case pass_through
    with A show ?thesis by simp
  next
    case B: (expired now' c1' t1')
    from det A(3) B(3) have n: "now' = now" "c1' = c1" by (auto dest: NowR_det)
    from A(4) B(4) n have "t1' = t1" by simp
    with A(5) B(5) n show ?thesis by simp
  next
    case B: (admitted now' c1' t1')
    from det A(3) B(3) have n: "now' = now" "c1' = c1" by (auto dest: NowR_det)
    from A(4) B(4) n have "t1' = t1" by simp
    with A(1) B(1) n show ?thesis by simp
  next
    case B: (waited now' c1' t1' sleepDur c2 now2 c3)
    from det A(3) B(3) have n: "now' = now" "c1' = c1" by (auto dest: NowR_det)
    from A(4) B(4) n have "t1' = t1" by simp
    with A(6) B(6) show ?thesis by simp
  qed
next
  case A: (waited now c1 t1 sleepDur c2 now2 c3)
  from r' show ?thesis
  proof cases
    case pass_through
    with A show ?thesis by simp
  next
    case B: (expired now' c1' t1')
    from det A(3) B(3) have n: "now' = now" "c1' = c1" by (auto dest: NowR_det)
    from A(4) B(4) n have "t1' = t1" by simp
    with A(5) B(5) n show ?thesis by simp
  next
    case B: (admitted now' c1' t1')
    from det A(3) B(3) have n: "now' = now" "c1' = c1" by (auto dest: NowR_det)
    from A(4) B(4) n have "t1' = t1" by simp
    with A(6) B(6) show ?thesis by simp
  next
    case B: (waited now' c1' t1' sleepDur' c2' now2' c3')
    from det A(3) B(3) have n: "now' = now" "c1' = c1" by (auto dest: NowR_det)
    from A(4) B(4) n have t: "t1' = t1" by simp
    from A(7) B(7) n t have s: "sleepDur' = sleepDur" by simp
    from det A(8) B(8) n s have c2: "c2' = c2" by (auto dest: SleepR_det)
    from det A(9) B(9) c2 have "now2' = now2" "c3' = c3" by (auto dest: NowR_det)
    with A(1) B(1) n t s show ?thesis by simp
  qed
qed

text \<open>
  C8. On a deterministic clock, two runs of the same sequence of \<^verbatim>\<open>Acquire\<close> calls
  and clock-advance operations from the same throttler and the same clock state end alike:
  the same sequence of outcomes (admitted at once, or waited and for how long), and the same
  throttler and clock state at the end.
\<close>

theorem same_run_same_outcomes:
  assumes "deterministic clk" and "runR clk adv ops t c r" and "runR clk adv ops t c r'"
  shows "r' = r"
  using assms(2,3)
proof (induction arbitrary: r' rule: runR.induct)
  case (run_done t c)
  then show ?case by (auto elim: runR.cases)
next
  case (run_acquire t c t1 c1 evs ops outs t2 c2)
  from run_acquire.prems show ?case
  proof cases
    case (run_acquire t1' c1' evs' outs' t2' c2')
    from advanceR_deterministic [OF assms(1) run_acquire.hyps(1) run_acquire(2)]
    have e: "t1' = t1" "c1' = c1" "evs' = evs" by simp_all
    from run_acquire(3) e run_acquire.IH have "(outs', t2', c2') = (outs, t2, c2)" by simp
    with run_acquire(1) e show ?thesis by simp
  qed
next
  case (run_advance ops t d c r)
  from run_advance.prems show ?case
    by cases (simp add: run_advance.IH)
qed

text \<open>
  A clock given by functions is deterministic, and on it the relation \<open>advanceR\<close> holds of
  what the function \<open>advance\<close> computes; so does \<open>runR\<close> of what \<open>run\<close> computes.
\<close>

lemma deterministic_rel_of: "deterministic (rel_of clk)"
  by (simp add: deterministic_def rel_of_def)

lemma advanceR_advance: "advanceR (rel_of (clock t)) t c (advance t c)"
proof (cases "limit t = 0")
  case True
  then show ?thesis by (simp add: advance_def advanceR.pass_through)
next
  case False
  obtain now c1 where n: "Now (clock t) c = (now, c1)" by (cases "Now (clock t) c")
  define t1 where "t1 = (if time_IsZero (window t) then t\<lparr>window := now\<rparr> else t)"
  have clk: "clock t1 = clock t" by (simp add: t1_def)
  have nr: "NowR (rel_of (clock t)) c (now, c1)" by (simp add: rel_of_def n)
  show ?thesis
  proof (cases "windowSize <s time_Sub now (window t1)")
    case True
    with False n have "advance t c = (reset t1 now, c1, [CallNow now])"
      by (simp add: advance_def t1_def)
    with advanceR.expired [OF False nr t1_def True] show ?thesis by simp
  next
    case notexp: False
    show ?thesis
    proof (cases "counter t1 + 1 \<le> limit t1")
      case True
      with False n notexp have "advance t c = (t1\<lparr>counter := counter t1 + 1\<rparr>, c1, [CallNow now])"
        by (simp add: advance_def t1_def)
      with advanceR.admitted [OF False nr t1_def notexp True] show ?thesis by simp
    next
      case sat: False
      define sleepDur where "sleepDur = windowSize - time_Sub now (window t1)"
      define c2 where "c2 = Sleep (clock t) sleepDur c1"
      obtain now2 c3 where n2: "Now (clock t) c2 = (now2, c3)" by (cases "Now (clock t) c2")
      have sr: "SleepR (rel_of (clock t)) sleepDur c1 c2" by (simp add: rel_of_def c2_def)
      have nr2: "NowR (rel_of (clock t)) c2 (now2, c3)" by (simp add: rel_of_def n2)
      from False n notexp sat n2
      have "advance t c = (reset t1 now2, c3, [CallNow now, CallSleep sleepDur, CallNow now2])"
        by (simp add: advance_def t1_def sleepDur_def c2_def Let_def)
      with advanceR.waited [OF False nr t1_def notexp sat sleepDur_def sr nr2] show ?thesis by simp
    qed
  qed
qed

lemma runR_run: "runR (rel_of (clock t)) adv ops t c (run adv ops t c)"
proof (induction adv ops t c rule: run.induct)
  case (1 adv t c)
  show ?case by (simp add: runR.run_done)
next
  case (2 adv ops t c)
  obtain t1 c1 evs where a: "Acquire t c = (t1, c1, evs)" by (cases "Acquire t c")
  obtain outs t2 c2 where r: "run adv ops t1 c1 = (outs, t2, c2)" by (cases "run adv ops t1 c1")
  from a have clk: "clock t1 = clock t"
    using clock_advance [of t c] by (simp add: Acquire_def)
  from a have "advanceR (rel_of (clock t)) t c (t1, c1, evs)"
    using advanceR_advance [of t c] by (simp add: Acquire_def)
  moreover from 2 [of "(t1, c1, evs)" t1 "(c1, evs)" c1 evs] a r clk
  have "runR (rel_of (clock t)) adv ops t1 c1 (outs, t2, c2)" by simp
  ultimately
  have "runR (rel_of (clock t)) adv (OpAcquire # ops) t c (outcome_of evs # outs, t2, c2)"
    by (rule runR.run_acquire)
  with a r show ?case by simp
next
  case (3 adv d ops t c)
  then show ?case by (simp add: runR.run_advance)
qed

text \<open>
  The test double, a throttler of limit 1: two calls at instant 5, the clock moved forward by
  2.5 s, two more calls. Every run has the one result the function computes.
\<close>

theorem same_run_same_outcomes_witness:
  "deterministic (rel_of mock)
   \<and> (\<forall>r. runR (rel_of mock) mock_advance
            [OpAcquire, OpAcquire, OpAdvance 2500000000, OpAcquire, OpAcquire]
            (New mock 1 [WithClock mock]) (mock_at 5) r
          = (r = ([Immediately, Waited 1000000000, Immediately, Waited 1000000000],
                  (New mock 1 [WithClock mock])\<lparr>window := 4500000005, counter := 1\<rparr>,
                  \<lparr>currentTime = 4500000005, sleepCalls = [1000000000, 1000000000]\<rparr>)))"
proof -
  let ?ops = "[OpAcquire, OpAcquire, OpAdvance 2500000000, OpAcquire, OpAcquire]"
  let ?t = "New mock 1 [WithClock mock]"
  let ?R = "([Immediately, Waited 1000000000, Immediately, Waited 1000000000],
             ?t\<lparr>window := 4500000005, counter := 1\<rparr>,
             \<lparr>currentTime = 4500000005, sleepCalls = [1000000000, 1000000000]\<rparr>)"
  have det: "deterministic (rel_of mock)"
    by (rule deterministic_rel_of)
  have clk: "clock ?t = mock"
    by (simp add: New_def buildOptions_def WithClock_def Let_def)
  have "run mock_advance ?ops ?t (mock_at 5) = ?R"
    by (simp add: example_simps outcome_of_def)
  with runR_run [of ?t mock_advance ?ops "mock_at 5"] clk
  have ex: "runR (rel_of mock) mock_advance ?ops ?t (mock_at 5) ?R"
    by simp
  have "r = ?R" if "runR (rel_of mock) mock_advance ?ops ?t (mock_at 5) r" for r
    using same_run_same_outcomes [OF det ex that] .
  with ex det show ?thesis by blast
qed

section \<open>The nil clock offset\<close>

text \<open>
  In the variant with a clock offset a call that returns leaves the limit and the
  \<^verbatim>\<open>clockOffset\<close> field as they were: every throttler reached from \<open>New_offset lim []\<close> is
  that throttler with some window and some counter.
\<close>

lemma advance_offset_frame:
  "advance_offset rt t c = Inr (t', c', evs)
   \<Longrightarrow> limit t' = limit t \<and> clockOffset t' = clockOffset t"
  by (auto simp add: advance_offset_def reset_def Let_def
      split: if_splits prod.splits option.splits)

lemma clockOffset_New_offset: "clockOffset (New_offset lim []) = None"
  by (simp add: New_offset_def buildOptions_offset_def)

text \<open>
  C9. The variant with a clock offset, a throttler created by \<^verbatim>\<open>New\<close> with a limit
  above 0 and no option, in whatever state of window \<open>w\<close> and counter \<open>k\<close>: a call to
  \<^verbatim>\<open>Do\<close> that reaches the saturated branch (the window, opened by this call if it was
  unset, is not expired, and \<open>limit < counter + 1\<close>) calls the nil \<^verbatim>\<open>clockOffset\<close> and
  panics.
\<close>

theorem default_offset_faults:
  assumes "0 < lim"
    and "t = (New_offset lim [])\<lparr>window := w, counter := k\<rparr>"
    and "Now rt c = (now, c1)"
    and "time_Sub now (if time_IsZero w then now else w) \<le>s windowSize"
    and "lim < k + 1"
  shows "Do_offset rt t fn c = Inl NilFuncCall"
  using assms
  by (auto simp add: Do_offset_def advance_offset_def New_offset_def buildOptions_offset_def
      Let_def word_gt_0 signed.not_less [symmetric] not_le [symmetric])

text \<open>
  Limit 1 and no option: the first \<^verbatim>\<open>Do\<close>, at instant 5, returns what the operation
  returned and leaves the window at 5 and the counter at 1; the second, at the same instant,
  panics.
\<close>

theorem default_offset_faults_witness:
  "0 < (1::uint64)
   \<and> Do_offset mock (New_offset 1 []) (\<lambda>c. ((42::nat, None::nat option), c)) (mock_at 5)
       = Inr ((42, None), (New_offset 1 [])\<lparr>window := 5, counter := 1\<rparr>, mock_at 5, [CallNow 5])
   \<and> Now mock (mock_at 5) = (5, mock_at 5)
   \<and> time_Sub 5 (if time_IsZero 5 then 5 else 5) \<le>s windowSize
   \<and> (1::uint64) < 1 + 1
   \<and> Do_offset mock ((New_offset 1 [])\<lparr>window := 5, counter := 1\<rparr>)
        (\<lambda>c. ((42::nat, None::nat option), c)) (mock_at 5)
       = Inl NilFuncCall"
  using default_offset_faults
    [of 1 "(New_offset 1 [])\<lparr>window := 5, counter := 1\<rparr>" 5 1 mock "mock_at 5" 5 "mock_at 5"
        "\<lambda>c. ((42::nat, None::nat option), c)"]
  by (simp add: Do_offset_def advance_offset_def New_offset_def buildOptions_offset_def
      example_simps)

section \<open>Further properties\<close>

text \<open>
  The first call on a throttler with a limit above 0, no window yet and the counter at 0
  opens the window at the instant read from the clock and sets the counter to 1, without
  sleeping.
\<close>

theorem first_call_opens_window:
  assumes "0 < limit t" and "time_IsZero (window t)" and "counter t = 0"
    and "Now (clock t) c = (now, c1)"
  shows "Acquire t c = (t\<lparr>window := now, counter := 1\<rparr>, c1, [CallNow now])"
  using assms
  by (simp add: Acquire_def advance_def reset_def Let_def word_gt_0 time_Sub_self one_le_uint64
      signed.not_less zero_sle_windowSize)

theorem first_call_opens_window_witness:
  "0 < limit (New mock 3 [WithClock mock])
   \<and> time_IsZero (window (New mock 3 [WithClock mock]))
   \<and> counter (New mock 3 [WithClock mock]) = 0
   \<and> Now (clock (New mock 3 [WithClock mock])) (mock_at 5) = (5, mock_at 5)
   \<and> Acquire (New mock 3 [WithClock mock]) (mock_at 5)
       = ((New mock 3 [WithClock mock])\<lparr>window := 5, counter := 1\<rparr>, mock_at 5, [CallNow 5])"
  using first_call_opens_window [of "New mock 3 [WithClock mock]" "mock_at 5" 5 "mock_at 5"]
  by (simp add: New_def buildOptions_def WithClock_def mock_def mock_Now_def mock_at_def
      time_IsZero_def Let_def)

text \<open>
  \<^verbatim>\<open>Acquire\<close> never changes the limit or the clock of a throttler.
\<close>

theorem limit_and_clock_immutable:
  "limit (fst (Acquire t c)) = limit t \<and> clock (fst (Acquire t c)) = clock t"
  by (simp add: Acquire_def advance_def reset_def Let_def split: prod.splits)

text \<open>
  The repository's test of the custom clock: a throttler of limit 1 on the test double set
  to any instant \<open>n\<close>. The first \<^verbatim>\<open>Acquire\<close> records no sleep; after the second the
  double has recorded exactly one sleep, of one second.
\<close>

theorem TestWithClock:
  "sleepCalls (fst (snd (acquires 1 (New dflt 1 [WithClock mock]) (mock_at n)))) = []
   \<and> sleepCalls (fst (snd (acquires 2 (New dflt 1 [WithClock mock]) (mock_at n)))) = [Second]"
  unfolding numeral_2_eq_2
  by (simp add: New_def buildOptions_def WithClock_def mock_def mock_Now_def
      mock_Sleep_def mock_at_def time_IsZero_def Let_def Acquire_def advance_def reset_def
      time_Sub_self windowSize_def Second_def word_sle_eq word_sless_alt word_le_nat_alt)

text \<open>
  The counter is a \<^verbatim>\<open>uint64\<close> and \<open>counter + 1\<close> wraps: with the limit and the counter
  both at \<open>2 ^ 64 - 1\<close> and the window open and not expired, \<open>nextCount\<close> is 0, the test
  \<open>limit \<ge> nextCount\<close> passes, and the call is admitted without a sleep, the counter back at 0.
\<close>

theorem full_counter_wraps:
  assumes "\<not> time_IsZero (window t)"
    and "limit t = 18446744073709551615" and "counter t = 18446744073709551615"
    and "Now (clock t) c = (now, c1)"
    and "time_Sub now (window t) \<le>s windowSize"
  shows "Acquire t c = (t\<lparr>counter := 0\<rparr>, c1, [CallNow now])"
  using assms
  by (simp add: Acquire_def advance_def signed.not_less [symmetric])

theorem full_counter_wraps_witness:
  "\<not> time_IsZero (window ((busy 1)\<lparr>counter := 18446744073709551615, limit := 18446744073709551615\<rparr>))
   \<and> Now (clock ((busy 1)\<lparr>counter := 18446744073709551615, limit := 18446744073709551615\<rparr>))
        (mock_at 5) = (5, mock_at 5)
   \<and> time_Sub 5 (window ((busy 1)\<lparr>counter := 18446744073709551615, limit := 18446744073709551615\<rparr>))
        \<le>s windowSize
   \<and> Acquire ((busy 1)\<lparr>counter := 18446744073709551615, limit := 18446744073709551615\<rparr>)
        (mock_at 5)
       = ((busy 1)\<lparr>counter := 0, limit := 18446744073709551615\<rparr>, mock_at 5, [CallNow 5])"
  using full_counter_wraps
    [of "(busy 1)\<lparr>counter := 18446744073709551615, limit := 18446744073709551615\<rparr>"
        "mock_at 5" 5 "mock_at 5"]
  by (simp add: busy_def example_simps)

end
